theory Spec2Isabelle
  imports Main
begin

section \<open>The MEV-Share tutorial snippet (\<open>src/index.ts\<close> of the "Using Events" guide)\<close>

subsection \<open>JavaScript values the snippet handles\<close>

text \<open>
  A field of TypeScript type \<open>T | null | undefined\<close>. The event printed in the guide shows
  all three shapes: \<open>to: null\<close>, \<open>gasUsed: undefined\<close>, and a second event with no
  \<open>to\<close> property at all (reading it yields \<open>undefined\<close>).
\<close>

datatype 'a optional = Undefined | Null | Val 'a

text \<open>One entry of \<open>pendingTx.logs\<close>, as printed in the guide.\<close>

record log_params =
  address :: string
  topics :: "string list"
  data :: string

text \<open>\<open>IPendingTransaction\<close>, with the fields the guide prints.\<close>

record pending_transaction =
  hash :: string
  logs :: "log_params list optional"
  to :: "string optional"
  functionSelector :: "string optional"
  callData :: "string optional"
  gasUsed :: "int optional"
  mevGasPrice :: "int optional"

text \<open>The only exception the expression could raise: a method call on \<open>null\<close> or \<open>undefined\<close>.\<close>

datatype js_error = TypeError

text \<open>
  \<open>v === s\<close> for \<open>v\<close> of type \<open>string | null | undefined\<close> and \<open>s\<close> a string: no coercion,
  so \<open>null\<close> and \<open>undefined\<close> are never equal to a string, and two strings are equal when
  they are the same sequence of code units.
\<close>

definition strict_equals :: "string optional \<Rightarrow> string \<Rightarrow> bool" where
  "strict_equals v s = (case v of Val t \<Rightarrow> t = s | Null \<Rightarrow> False | Undefined \<Rightarrow> False)"

text \<open>Truthiness of an optional array: every array (the empty one too) is truthy.\<close>

definition truthy :: "'a list optional \<Rightarrow> bool" where
  "truthy v = (case v of Val _ \<Rightarrow> True | Null \<Rightarrow> False | Undefined \<Rightarrow> False)"

text \<open>\<open>a || b\<close> on optional arrays: the left operand when it is truthy, else the right one.\<close>

definition logical_or :: "'a list optional \<Rightarrow> 'a list optional \<Rightarrow> 'a list optional" where
  "logical_or a b = (if truthy a then a else b)"

text \<open>
  \<open>Array.prototype.some\<close>: the elements are visited from the left and the visit stops at the
  first one the callback accepts.
\<close>

fun some :: "('a \<Rightarrow> bool) \<Rightarrow> 'a list \<Rightarrow> bool" where
  "some p [] = False"
| "some p (x # xs) = (if p x then True else some p xs)"

text \<open>The method call \<open>r.some(p)\<close>: a \<open>TypeError\<close> when the receiver is \<open>null\<close> or \<open>undefined\<close>.\<close>

definition call_some :: "'a list optional \<Rightarrow> ('a \<Rightarrow> bool) \<Rightarrow> js_error + bool" where
  "call_some r p =
     (case r of Val xs \<Rightarrow> Inr (some p xs) | Null \<Rightarrow> Inl TypeError | Undefined \<Rightarrow> Inl TypeError)"

subsection \<open>\<open>transactionIsRelatedToPair\<close>\<close>

text \<open>
  \<^verbatim>\<open>
  function transactionIsRelatedToPair(pendingTx: IPendingTransaction, PAIR_ADDRESS: string) {
      return pendingTx.to === PAIR_ADDRESS ||
          ((pendingTx.logs || []).some(log => log.address === PAIR_ADDRESS))
  }
  \<close>
  The outer \<open>||\<close> short-circuits: the logs are looked at only when the \<open>to\<close> comparison is
  false. The result is \<open>Inl\<close> when the call throws, \<open>Inr\<close> of the returned boolean otherwise.
\<close>

definition transactionIsRelatedToPair ::
    "'x pending_transaction_scheme \<Rightarrow> string \<Rightarrow> js_error + bool" where
  "transactionIsRelatedToPair pendingTx PAIR_ADDRESS =
     (if strict_equals (to pendingTx) PAIR_ADDRESS then Inr True
      else call_some (logical_or (logs pendingTx) (Val []))
             (\<lambda>log. address log = PAIR_ADDRESS))"

text \<open>
  \<open>String.prototype.toLowerCase\<close>, which \<open>main\<close> applies to the pair address. The model
  maps the letters A to Z (code units 65 to 90) to a to z and leaves every other code unit
  alone; it is exact on ASCII strings, which is what a hexadecimal address is.
\<close>

definition lower_char :: "char \<Rightarrow> char" where
  "lower_char c =
     (let n = (of_char c :: nat) in if 65 \<le> n \<and> n \<le> 90 then char_of (n + 32) else c)"

definition toLowerCase :: "string \<Rightarrow> string" where
  "toLowerCase s = map lower_char s"

subsection \<open>\<open>approveTokenToRouter\<close>\<close>

text \<open>A contract call whose promise rejects makes the \<open>await\<close> throw.\<close>

datatype rpc_error = Rejected

text \<open>
  The \<open>ethers\<close> contract object \<open>new Contract(tokenAddress, ERC20_ABI, executorWallet)\<close>.
  The library, the ABI and the chain behind it are not part of the snippet, so the three
  methods it calls are parameters, over any type \<open>'w\<close> of chain states: the two reads take
  the state, the token address and their arguments; \<open>approve\<close> also takes the sender (the
  signer the contract is connected to) and returns the state after the transaction was
  submitted.
\<close>

record 'w erc20 =
  allowance :: "'w \<Rightarrow> string \<Rightarrow> string \<Rightarrow> string \<Rightarrow> rpc_error + int"
  balanceOf :: "'w \<Rightarrow> string \<Rightarrow> string \<Rightarrow> rpc_error + int"
  approve :: "'w \<Rightarrow> string \<Rightarrow> string \<Rightarrow> string \<Rightarrow> int \<Rightarrow> (rpc_error + unit) \<times> 'w"

text \<open>What the function does to the outside: console output and transactions sent.\<close>

datatype effect =
    ConsoleError string
  | ConsoleLog string
  | ApproveTx string string int

text \<open>How the call ends: it returns, the process exits with a code, or an \<open>await\<close> throws.\<close>

datatype outcome = Returned | Exited int | Threw rpc_error

text \<open>
  \<^verbatim>\<open>
  async function approveTokenToRouter( tokenAddress: string, routerAddress: string ) {
      const tokenContract = new Contract(tokenAddress, ERC20_ABI, executorWallet)
      const allowance = await tokenContract.allowance(executorWallet.address, routerAddress)
      const balance = await tokenContract.balanceOf(executorWallet.address)
      if (balance == 0n) {
          console.error("No token balance for " + tokenAddress)
          process.exit(1)
      }
      if (allowance >= balance) {
          console.log("Token already approved")
          return
      }
      await tokenContract.approve(routerAddress, 2n**256n - 1n)
  }
  \<close>
  The amounts are JavaScript \<open>bigint\<close>s, hence \<open>int\<close>. The result is the outcome, the effects
  in the order they happen, and the chain state afterwards.
\<close>

definition approveTokenToRouter ::
    "'w erc20 \<Rightarrow> string \<Rightarrow> 'w \<Rightarrow> string \<Rightarrow> string \<Rightarrow> outcome \<times> effect list \<times> 'w" where
  "approveTokenToRouter tokenContract executorWallet w tokenAddress routerAddress =
     (case allowance tokenContract w tokenAddress executorWallet routerAddress of
        Inl e \<Rightarrow> (Threw e, [], w)
      | Inr allowance_v \<Rightarrow>
         (case balanceOf tokenContract w tokenAddress executorWallet of
            Inl e \<Rightarrow> (Threw e, [], w)
          | Inr balance \<Rightarrow>
             if balance = 0
             then (Exited 1, [ConsoleError (''No token balance for '' @ tokenAddress)], w)
             else if allowance_v \<ge> balance
             then (Returned, [ConsoleLog ''Token already approved''], w)
             else
               (case approve tokenContract w tokenAddress executorWallet routerAddress
                       (2 ^ 256 - 1) of
                  (Inl e, w') \<Rightarrow>
                    (Threw e, [ApproveTx tokenAddress routerAddress (2 ^ 256 - 1)], w')
                | (Inr _, w') \<Rightarrow>
                    (Returned, [ApproveTx tokenAddress routerAddress (2 ^ 256 - 1)], w'))))"

text \<open>The approve transactions among the effects, as (token, spender, amount).\<close>

fun approvals :: "effect list \<Rightarrow> (string \<times> string \<times> int) list" where
  "approvals [] = []"
| "approvals (ApproveTx t s n # es) = (t, s, n) # approvals es"
| "approvals (_ # es) = approvals es"

text \<open>
  A token for the examples: the chain state is the executor's balance and its allowance for
  the router; \<open>approve\<close> stores the amount as the new allowance, as an ERC-20 token does.
\<close>

definition demo_token :: "(int \<times> int) erc20" where
  "demo_token =
     \<lparr> allowance = (\<lambda>w t owner spender. Inr (snd w)),
       balanceOf = (\<lambda>w t owner. Inr (fst w)),
       approve = (\<lambda>w t sender spender n. (Inr (), (fst w, n))) \<rparr>"

subsection \<open>Example inputs\<close>

text \<open>The first event printed in the guide, cut to one log: \<open>to\<close> is \<open>null\<close>.\<close>

definition printed_tx :: pending_transaction where
  "printed_tx =
     \<lparr> hash = ''0x26aba6f3c5083d58915161efb0cd0f713418cdd7a95425cdde451efd1dfb5dff'',
       logs = Val [\<lparr> address = ''0x8255ffbb54bbb825cc544b67ccf36526e6101f5e'',
                      topics = [], data = ''0x'' \<rparr>],
       to = Null, functionSelector = Null, callData = Null,
       gasUsed = Undefined, mevGasPrice = Undefined \<rparr>"

text \<open>An event that shares its hash only: neither \<open>to\<close> nor \<open>logs\<close> is there.\<close>

definition hash_only_tx :: pending_transaction where
  "hash_only_tx =
     \<lparr> hash = ''0xeb0d75030e0c7253b60a17a58eb2a2e66a6e3ca58343cadece70a528dfd378a1'',
       logs = Undefined, to = Null, functionSelector = Null, callData = Null,
       gasUsed = Undefined, mevGasPrice = Undefined \<rparr>"

text \<open>The same \<open>to\<close> and \<open>logs\<close> as \<open>printed_tx\<close>, every other field different.\<close>

definition other_fields_tx :: pending_transaction where
  "other_fields_tx =
     \<lparr> hash = ''0xeb0d75030e0c7253b60a17a58eb2a2e66a6e3ca58343cadece70a528dfd378a1'',
       logs = Val [\<lparr> address = ''0x8255ffbb54bbb825cc544b67ccf36526e6101f5e'',
                      topics = [], data = ''0x'' \<rparr>],
       to = Null, functionSelector = Val ''0xa9059cbb'', callData = Val ''0xa9059cbb00'',
       gasUsed = Val 21000, mevGasPrice = Val 7 \<rparr>"

text \<open>
  A transaction sent to the WETH/DAI pair, with the address in the checksummed spelling the
  guide links to, and an empty list of logs.
\<close>

definition checksummed_tx :: pending_transaction where
  "checksummed_tx =
     \<lparr> hash = ''0x01'', logs = Val [],
       to = Val ''0xA478c2975Ab1Ea89e8196811F51A7B7Ade33eB11'',
       functionSelector = Undefined, callData = Undefined,
       gasUsed = Undefined, mevGasPrice = Undefined \<rparr>"

section \<open>Properties of \<open>transactionIsRelatedToPair\<close>\<close>

lemma some_iff: "some p xs = (\<exists>x \<in> set xs. p x)"
  by (induction xs) auto

lemma strict_equals_iff: "strict_equals v s = (v = Val s)"
  by (cases v) (auto simp: strict_equals_def)

lemma call_some_logical_or:
  "call_some (logical_or v (Val [])) p =
     Inr (case v of Val xs \<Rightarrow> some p xs | Null \<Rightarrow> False | Undefined \<Rightarrow> False)"
  by (cases v) (simp_all add: call_some_def logical_or_def truthy_def)

lemma toLowerCase_pair_address:
  "toLowerCase ''0xA478c2975Ab1Ea89e8196811F51A7B7Ade33eB11'' =
     ''0xa478c2975ab1ea89e8196811f51a7b7ade33eb11''"
  by code_simp

text \<open>
  Claim C1. For every pending transaction \<open>tx\<close> and every pair address \<open>P\<close>, the call returns
  (it does not throw), and it returns true exactly when \<open>tx.to\<close> is strictly equal to \<open>P\<close>, or
  \<open>tx.logs\<close> is present and one of its logs has an \<open>address\<close> strictly equal to \<open>P\<close>; in
  every other case it returns false.
\<close>

theorem transactionIsRelatedToPair_iff:
  "transactionIsRelatedToPair tx P =
     Inr (to tx = Val P \<or> (\<exists>ls. logs tx = Val ls \<and> (\<exists>l \<in> set ls. address l = P)))"
  by (cases "logs tx")
     (auto simp: transactionIsRelatedToPair_def call_some_logical_or strict_equals_iff some_iff)

theorem transactionIsRelatedToPair_iff_witness:
  "transactionIsRelatedToPair printed_tx ''0x8255ffbb54bbb825cc544b67ccf36526e6101f5e'' = Inr True
   \<and> transactionIsRelatedToPair printed_tx ''0xa478c2975ab1ea89e8196811f51a7b7ade33eb11'' = Inr False
   \<and> transactionIsRelatedToPair checksummed_tx ''0xA478c2975Ab1Ea89e8196811F51A7B7Ade33eB11'' = Inr True"
  using transactionIsRelatedToPair_iff
          [of printed_tx "''0x8255ffbb54bbb825cc544b67ccf36526e6101f5e''"]
        transactionIsRelatedToPair_iff
          [of printed_tx "''0xa478c2975ab1ea89e8196811f51a7b7ade33eb11''"]
        transactionIsRelatedToPair_iff
          [of checksummed_tx "''0xA478c2975Ab1Ea89e8196811F51A7B7Ade33eB11''"]
  by (simp add: printed_tx_def checksummed_tx_def)

text \<open>
  Claim C2. The predicate is total: for every pending transaction and every pair address the
  call returns a boolean and never throws, also when \<open>to\<close> is \<open>null\<close> and \<open>logs\<close> is \<open>null\<close> or
  \<open>undefined\<close>. An absent \<open>logs\<close> counts as the empty list: the result is then the \<open>to\<close>
  comparison alone, and it is false when \<open>to\<close> is absent as well.
\<close>

theorem transactionIsRelatedToPair_total:
  "(\<exists>b. transactionIsRelatedToPair tx P = Inr b) \<and>
   (logs tx = Null \<or> logs tx = Undefined \<longrightarrow>
      transactionIsRelatedToPair tx P = Inr (to tx = Val P) \<and>
      transactionIsRelatedToPair tx P = transactionIsRelatedToPair (tx\<lparr>logs := Val []\<rparr>) P) \<and>
   ((to tx = Null \<or> to tx = Undefined) \<and> (logs tx = Null \<or> logs tx = Undefined) \<longrightarrow>
      transactionIsRelatedToPair tx P = Inr False)"
  by (cases "logs tx")
     (auto simp: transactionIsRelatedToPair_def call_some_logical_or strict_equals_iff)

theorem transactionIsRelatedToPair_total_witness:
  "to hash_only_tx = Null \<and> logs hash_only_tx = Undefined \<and>
   transactionIsRelatedToPair hash_only_tx ''0xa478c2975ab1ea89e8196811f51a7b7ade33eb11''
     = Inr False"
  using transactionIsRelatedToPair_total
          [of hash_only_tx "''0xa478c2975ab1ea89e8196811f51a7b7ade33eb11''"]
  by (simp add: hash_only_tx_def)

text \<open>
  Claim C3. The result depends on the fields \<open>to\<close> and \<open>logs\<close> only: two pending transactions
  that agree on them get the same answer for every pair address, whatever their \<open>hash\<close>,
  \<open>callData\<close>, \<open>functionSelector\<close>, \<open>gasUsed\<close>, \<open>mevGasPrice\<close> or further fields are. The
  body reads nothing but its two parameters, so the same input always gives the same value.
\<close>

theorem transactionIsRelatedToPair_depends_on_to_logs:
  "to tx1 = to tx2 \<Longrightarrow> logs tx1 = logs tx2 \<Longrightarrow>
     transactionIsRelatedToPair tx1 P = transactionIsRelatedToPair tx2 P"
  by (simp add: transactionIsRelatedToPair_def)

theorem transactionIsRelatedToPair_depends_on_to_logs_witness:
  "to printed_tx = to other_fields_tx \<and> logs printed_tx = logs other_fields_tx \<and>
   hash printed_tx \<noteq> hash other_fields_tx \<and>
   callData printed_tx \<noteq> callData other_fields_tx \<and>
   functionSelector printed_tx \<noteq> functionSelector other_fields_tx \<and>
   gasUsed printed_tx \<noteq> gasUsed other_fields_tx \<and>
   mevGasPrice printed_tx \<noteq> mevGasPrice other_fields_tx \<and>
   transactionIsRelatedToPair printed_tx ''0x8255ffbb54bbb825cc544b67ccf36526e6101f5e'' =
     transactionIsRelatedToPair other_fields_tx ''0x8255ffbb54bbb825cc544b67ccf36526e6101f5e''"
proof -
  have same_to: "to printed_tx = to other_fields_tx"
    by (simp add: printed_tx_def other_fields_tx_def)
  have same_logs: "logs printed_tx = logs other_fields_tx"
    by (simp add: printed_tx_def other_fields_tx_def)
  have differ: "hash printed_tx \<noteq> hash other_fields_tx"
      "callData printed_tx \<noteq> callData other_fields_tx"
      "functionSelector printed_tx \<noteq> functionSelector other_fields_tx"
      "gasUsed printed_tx \<noteq> gasUsed other_fields_tx"
      "mevGasPrice printed_tx \<noteq> mevGasPrice other_fields_tx"
    by (simp_all add: printed_tx_def other_fields_tx_def)
  from transactionIsRelatedToPair_depends_on_to_logs [OF same_to same_logs] same_to same_logs differ
  show ?thesis by blast
qed

text \<open>
  Claim C4. Addresses are compared as strings, letter case included: a pending transaction
  whose \<open>to\<close> equals the pair address up to letter case, but is not the same string, and
  whose logs are empty, is not related to the pair. The instance below is the checksummed
  WETH/DAI address against the lowercased one that \<open>main\<close> passes.
\<close>

theorem transactionIsRelatedToPair_case_sensitive:
  "to tx = Val a \<Longrightarrow> toLowerCase a = toLowerCase P \<Longrightarrow> a \<noteq> P \<Longrightarrow> logs tx = Val [] \<Longrightarrow>
     transactionIsRelatedToPair tx P = Inr False"
  by (simp add: transactionIsRelatedToPair_def call_some_logical_or strict_equals_iff)

theorem transactionIsRelatedToPair_case_sensitive_witness:
  "to checksummed_tx = Val ''0xA478c2975Ab1Ea89e8196811F51A7B7Ade33eB11'' \<and>
   logs checksummed_tx = Val [] \<and>
   toLowerCase ''0xA478c2975Ab1Ea89e8196811F51A7B7Ade33eB11'' =
     toLowerCase ''0xa478c2975ab1ea89e8196811f51a7b7ade33eb11'' \<and>
   transactionIsRelatedToPair checksummed_tx
     (toLowerCase ''0xA478c2975Ab1Ea89e8196811F51A7B7Ade33eB11'') = Inr False"
proof -
  let ?a = "''0xA478c2975Ab1Ea89e8196811F51A7B7Ade33eB11''"
  let ?P = "''0xa478c2975ab1ea89e8196811f51a7b7ade33eb11''"
  have to_a: "to checksummed_tx = Val ?a" and no_logs: "logs checksummed_tx = Val []"
    by (simp_all add: checksummed_tx_def)
  have lower_P: "toLowerCase ?P = ?P"
    by code_simp
  have same: "toLowerCase ?a = toLowerCase ?P"
    by (simp only: toLowerCase_pair_address lower_P)
  have differ: "?a \<noteq> ?P"
    by simp
  from transactionIsRelatedToPair_case_sensitive [OF to_a same differ no_logs]
  show ?thesis
    using to_a no_logs same by (simp only: toLowerCase_pair_address simp_thms)
qed

section \<open>Properties of \<open>approveTokenToRouter\<close>\<close>

text \<open>
  Claim C5. An approve transaction is sent only when both reads succeed, the balance is
  nonzero and the allowance is strictly below the balance, and then it is one transaction,
  to the router, for \<open>2^256 - 1\<close>. With a zero balance the function prints the error and exits
  the process with code 1, approving nothing; with a nonzero balance that the allowance
  covers it returns without sending a transaction. In both cases the chain state, and so
  the allowance, is what it was.
\<close>

theorem approveTokenToRouter_cases:
  assumes run: "approveTokenToRouter c ex w tok router = (out, effs, w')"
  shows
    "(approvals effs \<noteq> [] \<longrightarrow>
        approvals effs = [(tok, router, 2 ^ 256 - 1)] \<and>
        (\<exists>a b. allowance c w tok ex router = Inr a \<and> balanceOf c w tok ex = Inr b \<and>
               b \<noteq> 0 \<and> a < b)) \<and>
     (\<forall>a b. allowance c w tok ex router = Inr a \<and> balanceOf c w tok ex = Inr b \<longrightarrow>
        (b = 0 \<longrightarrow>
           out = Exited 1 \<and> effs = [ConsoleError (''No token balance for '' @ tok)] \<and> w' = w) \<and>
        (b \<noteq> 0 \<and> a \<ge> b \<longrightarrow>
           out = Returned \<and> effs = [ConsoleLog ''Token already approved''] \<and> w' = w) \<and>
        (a \<ge> b \<longrightarrow> approvals effs = [] \<and> w' = w) \<and>
        (b \<noteq> 0 \<and> a < b \<longrightarrow>
           effs = [ApproveTx tok router (2 ^ 256 - 1)] \<and>
           w' = snd (approve c w tok ex router (2 ^ 256 - 1))))"
  using run
  by (auto simp: approveTokenToRouter_def split: sum.splits prod.splits if_splits)

theorem approveTokenToRouter_cases_witness:
  "approveTokenToRouter demo_token ''0xe'' (0, 0) ''0xt'' ''0xr'' =
     (Exited 1, [ConsoleError ''No token balance for 0xt''], (0, 0)) \<and>
   approveTokenToRouter demo_token ''0xe'' (5, 7) ''0xt'' ''0xr'' =
     (Returned, [ConsoleLog ''Token already approved''], (5, 7)) \<and>
   approveTokenToRouter demo_token ''0xe'' (5, 3) ''0xt'' ''0xr'' =
     (Returned, [ApproveTx ''0xt'' ''0xr'' (2 ^ 256 - 1)], (5, 2 ^ 256 - 1))"
proof -
  have r0: "approveTokenToRouter demo_token ''0xe'' (0, 0) ''0xt'' ''0xr'' =
      (Exited 1, [ConsoleError ''No token balance for 0xt''], (0, 0))"
    by (simp add: approveTokenToRouter_def demo_token_def)
  have r1: "approveTokenToRouter demo_token ''0xe'' (5, 7) ''0xt'' ''0xr'' =
      (Returned, [ConsoleLog ''Token already approved''], (5, 7))"
    by (simp add: approveTokenToRouter_def demo_token_def)
  have r2: "approveTokenToRouter demo_token ''0xe'' (5, 3) ''0xt'' ''0xr'' =
      (Returned, [ApproveTx ''0xt'' ''0xr'' (2 ^ 256 - 1)], (5, 2 ^ 256 - 1))"
    by (simp add: approveTokenToRouter_def demo_token_def)
  from approveTokenToRouter_cases [OF r0] approveTokenToRouter_cases [OF r1]
       approveTokenToRouter_cases [OF r2] r0 r1 r2
  show ?thesis by blast
qed

end
